theory Spec2Isabelle
  imports Main
begin

section \<open>Data model of package errors (errors.go)\<close>

text \<open>
  A call-frame record of the Go runtime (\<^verbatim>\<open>runtime.Frame\<close>), reduced to the three
  fields the package reads.
\<close>

record Frame =
  Function :: string
  File :: string
  Line :: int

text \<open>
  A value of the interface type \<^verbatim>\<open>error\<close> is either the nil interface, a value of
  the struct type \<^verbatim>\<open>Error\<close> of this package, or a value of any other dynamic type
  (a plain error). Of a plain error the package only uses its text (the result of its
  \<^verbatim>\<open>Error()\<close> method) and the error it wraps (the result of its \<^verbatim>\<open>Unwrap()\<close>
  method; \<open>Nil\<close> when it has no such method or the method returns nil). Plain errors
  are those of the standard library made by \<^verbatim>\<open>errors.New\<close> and by \<^verbatim>\<open>fmt.Errorf\<close>
  with at most one \<^verbatim>\<open>%w\<close>: they have no \<^verbatim>\<open>As\<close> method of their own and wrap at
  most one error.
  The struct has the five fields of the source; a nil slice is \<open>None\<close>, a nil payload
  is \<open>None\<close>.
\<close>

datatype 'p error =
    Nil
  | Plain string "'p error"
  | Enriched "'p Error"
and 'p Error =
    Error (message: string) (payload: "'p option") (code: int)
          (stacktrace: "Frame list option") (err: "'p error")

text \<open>The two methods of \<open>Error\<close> that make it an error with a cause.\<close>

definition Error_Error :: "'p Error \<Rightarrow> string" where
  "Error_Error ee = message ee"

definition Error_Unwrap :: "'p Error \<Rightarrow> 'p error" where
  "Error_Unwrap ee = err ee"

section \<open>The chain walk of the standard library\<close>

text \<open>
  \<^verbatim>\<open>errors.As(err, target)\<close> inspects the type the pointer \<open>target\<close> points to.
  The package passes pointers to two types: \<^verbatim>\<open>*Error\<close> and \<^verbatim>\<open>*interface{}\<close>.
\<close>

datatype target_type = T_Error | T_any

fun AssignableTo :: "'p error \<Rightarrow> target_type \<Rightarrow> bool" where
  "AssignableTo Nil T = False"
| "AssignableTo e T_any = True"
| "AssignableTo (Enriched ee) T_Error = True"
| "AssignableTo (Plain t c) T_Error = False"

text \<open>
  The loop of \<^verbatim>\<open>errors.As\<close>: the first value of the chain whose dynamic type is
  assignable to the target type is stored in the target (\<open>Some\<close>, the call returns
  true); at the end of the chain the call returns false (\<open>None\<close>).
\<close>

fun errors_As :: "'p error \<Rightarrow> target_type \<Rightarrow> 'p error option" where
  "errors_As Nil T = None"
| "errors_As (Plain t c) T =
     (if AssignableTo (Plain t c) T then Some (Plain t c) else errors_As c T)"
| "errors_As (Enriched (Error m p cd st c)) T =
     (if AssignableTo (Enriched (Error m p cd st c)) T
      then Some (Enriched (Error m p cd st c)) else errors_As c T)"

text \<open>\<^verbatim>\<open>errors.Unwrap\<close>: one call of the \<^verbatim>\<open>Unwrap()\<close> method, nil when there is none.\<close>

fun errors_Unwrap :: "'p error \<Rightarrow> 'p error" where
  "errors_Unwrap Nil = Nil"
| "errors_Unwrap (Plain t c) = c"
| "errors_Unwrap (Enriched ee) = Error_Unwrap ee"

section \<open>Chain inspection\<close>

text \<open>
  \<^verbatim>\<open>func As(err error, target interface{}) bool { return errors.As(err, &target) }\<close>
  The parameter \<open>target\<close> has the static type \<^verbatim>\<open>interface{}\<close>, so \<^verbatim>\<open>&target\<close> is a
  \<^verbatim>\<open>*interface{}\<close> whatever the caller passed: the walk runs with the target type
  \<open>T_any\<close>. The argument \<open>target\<close> of the model is the type the caller's pointer
  points to.
\<close>

definition As :: "'p error \<Rightarrow> target_type \<Rightarrow> bool" where
  "As e target = (errors_As e T_any \<noteq> None)"

definition Unwrap :: "'p error \<Rightarrow> 'p error" where
  "Unwrap e = (if errors_As e T_Error \<noteq> None then errors_Unwrap e else e)"

section \<open>Collaborators outside the package\<close>

text \<open>
  Package \<^verbatim>\<open>fmt\<close> of the standard library is a parameter of the model: \<open>Sprintf\<close> is
  \<^verbatim>\<open>fmt.Sprintf\<close> and \<open>fmt_Errorf\<close> is \<^verbatim>\<open>fmt.Errorf\<close>, both applied to a format
  and its operands (of a type \<open>'a\<close> left open).
\<close>

record ('a, 'p) fmt =
  Sprintf :: "string \<Rightarrow> 'a list \<Rightarrow> string"
  fmt_Errorf :: "string \<Rightarrow> 'a list \<Rightarrow> 'p error"

text \<open>
  \<^verbatim>\<open>zapcore.ObjectEncoder\<close> is an interface; the package calls two of its methods.
  \<open>'s\<close> is the state of the encoder, \<open>AddReflected\<close> also returns an error (\<open>Nil\<close>
  when the payload was encoded).
\<close>

record ('s, 'p) ObjectEncoder =
  AddString :: "string \<Rightarrow> string \<Rightarrow> 's \<Rightarrow> 's"
  AddReflected :: "string \<Rightarrow> 'p \<Rightarrow> 's \<Rightarrow> 's \<times> 'p error"

text \<open>The run-time panics the package can raise.\<close>

datatype panic = NilDereference | SliceBoundsOutOfRange

text \<open>
  The call \<^verbatim>\<open>e.Error()\<close> on a value of interface type \<^verbatim>\<open>error\<close>: on the nil
  interface the call panics, otherwise it runs the method of the dynamic type.
\<close>

fun call_Error :: "'p error \<Rightarrow> panic + string" where
  "call_Error Nil = Inl NilDereference"
| "call_Error (Plain t c) = Inr t"
| "call_Error (Enriched ee) = Inr (Error_Error ee)"

section \<open>Stack capture\<close>

text \<open>
  \<open>runtime_Callers skip stack pc_len\<close> is \<^verbatim>\<open>runtime.Callers(skip, pc)\<close> for a \<open>pc\<close> of
  length \<open>pc_len\<close>, on a goroutine whose call stack is \<open>stack\<close>, innermost frame first
  and starting with the frame of \<^verbatim>\<open>runtime.Callers\<close> itself. It gives the entries
  written to \<open>pc\<close>; their number is the \<open>n\<close> of the source.
\<close>

definition runtime_Callers :: "nat \<Rightarrow> Frame list \<Rightarrow> nat \<Rightarrow> Frame list" where
  "runtime_Callers skip stack pc_len = take pc_len (drop skip stack)"

text \<open>
  \<^verbatim>\<open>(*runtime.Frames).Next\<close>: the next frame, whether a further call will give a
  frame, and the frames left. With no frame left it returns the zero \<open>Frame\<close>.
\<close>

fun Frames_Next :: "Frame list \<Rightarrow> Frame \<times> bool \<times> Frame list" where
  "Frames_Next [] = (\<lparr>Function = [], File = [], Line = 0\<rparr>, False, [])"
| "Frames_Next (f # fs) = (f, fs \<noteq> [], fs)"

text \<open>
  The loop of \<open>stackTrace\<close>: \<^verbatim>\<open>frame, more := frames.Next(); if !more { break };
  traceFrames = append(traceFrames, &frame)\<close>.
\<close>

function traceFrames_loop :: "Frame list \<Rightarrow> Frame list \<Rightarrow> Frame list" where
  "traceFrames_loop frames traceFrames =
     (case Frames_Next frames of
        (frame, more', rest) \<Rightarrow>
          if \<not> more' then traceFrames
          else traceFrames_loop rest (traceFrames @ [frame]))"
  by pat_completeness auto
termination
  apply (relation "measure (\<lambda>(frames, traceFrames). length frames)")
   apply simp
  subgoal for frames
    by (cases frames) auto
  done

declare traceFrames_loop.simps [simp del]

text \<open>
  \<open>stackTrace stack\<close>, where \<open>stack\<close> is the call stack at the call of
  \<^verbatim>\<open>runtime.Callers\<close>: the frames of \<^verbatim>\<open>runtime.Callers\<close>, of \<open>stackTrace\<close>, of the
  function of this package that called \<open>stackTrace\<close>, then of its callers. The slice
  expression \<^verbatim>\<open>pc[3:n]\<close> panics when \<open>n < 3\<close>. The result is a non-nil slice.
\<close>

definition stackTrace :: "Frame list \<Rightarrow> panic + Frame list" where
  "stackTrace stack =
     (let pc = runtime_Callers 0 stack 10;
          n = length pc
      in if n < 3 then Inl SliceBoundsOutOfRange
         else Inr (traceFrames_loop (drop 3 (take n pc)) []))"

section \<open>Construction\<close>

text \<open>
  The functions that capture the stack take it as the argument \<open>stack\<close>: the call
  stack at their call of \<open>stackTrace\<close>, as \<^verbatim>\<open>runtime.Callers\<close> sees it there. A
  panic of \<open>stackTrace\<close> is their result (\<open>Inl\<close>). The fields a composite literal of
  the source leaves out have their zero values: a nil payload and the code 0.
\<close>

definition Errorf :: "('a, 'p) fmt \<Rightarrow> Frame list \<Rightarrow> string \<Rightarrow> 'a list \<Rightarrow> panic + 'p Error" where
  "Errorf F stack format a =
     (case stackTrace stack of
        Inl p \<Rightarrow> Inl p
      | Inr st \<Rightarrow> Inr (Error (Sprintf F format a) None 0 (Some st) (fmt_Errorf F format a)))"

text \<open>
  \<open>WithMessage\<close>: \<^verbatim>\<open>errors.As(err, &parentEnhancedError)\<close> has a target of type
  \<^verbatim>\<open>*Error\<close>, so what it stores is a value of the struct type; the stored copy is
  updated and returned. When it stores nothing a new value is built around \<open>err\<close>.
\<close>

definition WithMessage ::
  "('a, 'p) fmt \<Rightarrow> Frame list \<Rightarrow> 'p error \<Rightarrow> string \<Rightarrow> 'a list \<Rightarrow> panic + 'p Error" where
  "WithMessage F stack e format a =
     (case errors_As e T_Error of
        Some (Enriched parentEnhancedError) \<Rightarrow>
          (case (if stacktrace parentEnhancedError = None
                 then map_sum id Some (stackTrace stack)
                 else Inr (stacktrace parentEnhancedError)) of
             Inl p \<Rightarrow> Inl p
           | Inr st \<Rightarrow>
               Inr (Error (Sprintf F format a @ '': '' @ message parentEnhancedError)
                          (payload parentEnhancedError) (code parentEnhancedError) st
                          (err parentEnhancedError)))
      | _ \<Rightarrow>
          (case stackTrace stack of
             Inl p \<Rightarrow> Inl p
           | Inr st \<Rightarrow> Inr (Error (Sprintf F format a) None 0 (Some st) e)))"

definition WithPayload :: "'p Error \<Rightarrow> 'p option \<Rightarrow> 'p Error" where
  "WithPayload ee p = Error (message ee) p (code ee) (stacktrace ee) (err ee)"

definition WithCode :: "'p Error \<Rightarrow> int \<Rightarrow> 'p Error" where
  "WithCode ee c = Error (message ee) (payload ee) c (stacktrace ee) (err ee)"

definition WithStacktrace :: "Frame list \<Rightarrow> 'p Error \<Rightarrow> panic + 'p Error" where
  "WithStacktrace stack ee =
     (case stackTrace stack of
        Inl p \<Rightarrow> Inl p
      | Inr st \<Rightarrow> Inr (Error (message ee) (payload ee) (code ee) (Some st) (err ee)))"

section \<open>The log adapter\<close>

text \<open>The verb \<^verbatim>\<open>%d\<close> of package \<^verbatim>\<open>fmt\<close> on an \<^verbatim>\<open>int\<close>: decimal digits, with a sign.\<close>

fun decimal :: "nat \<Rightarrow> string" where
  "decimal n =
     (if n < 10 then [''0123456789'' ! n]
      else decimal (n div 10) @ [''0123456789'' ! (n mod 10)])"

declare decimal.simps [simp del]

definition format_d :: "int \<Rightarrow> string" where
  "format_d i = (if i < 0 then ''-'' @ decimal (nat (- i)) else decimal (nat i))"

text \<open>
  \<^verbatim>\<open>fmt.Fprintf(buffer, "%s\t\n%s:%d\n", frame.Function, frame.File, frame.Line)\<close>:
  the bytes appended to the buffer. \<open>CHR 0x09\<close> is the tab, \<open>CHR 0x0A\<close> the newline.
\<close>

definition Fprintf_frame :: "Frame \<Rightarrow> string" where
  "Fprintf_frame frame =
     Function frame @ [CHR 0x09, CHR 0x0A] @ File frame @ '':'' @ format_d (Line frame)
       @ [CHR 0x0A]"

text \<open>\<^verbatim>\<open>len\<close> of a slice and the elements a \<^verbatim>\<open>range\<close> loop visits; a nil slice has none.\<close>

definition len :: "'x list option \<Rightarrow> nat" where
  "len sl = (case sl of None \<Rightarrow> 0 | Some xs \<Rightarrow> length xs)"

definition elements :: "'x list option \<Rightarrow> 'x list" where
  "elements sl = (case sl of None \<Rightarrow> [] | Some xs \<Rightarrow> xs)"

text \<open>
  \<open>MarshalLogObject encoder ee s\<close> runs the method on the encoder \<open>encoder\<close> in state
  \<open>s\<close>. It gives the panic, or the final state of the encoder with the returned error.
\<close>

definition MarshalLogObject ::
  "('s, 'p) ObjectEncoder \<Rightarrow> 'p Error \<Rightarrow> 's \<Rightarrow> panic + ('s \<times> 'p error)" where
  "MarshalLogObject encoder ee s =
     (case (if length (message ee) > 0
            then map_sum id (\<lambda>text. AddString encoder ''message'' text s) (call_Error (err ee))
            else Inr s) of
        Inl p \<Rightarrow> Inl p
      | Inr s1 \<Rightarrow>
          (let s2 = (if len (stacktrace ee) > 0
                     then AddString encoder ''stacktrace''
                            (foldl (\<lambda>buffer frame. buffer @ Fprintf_frame frame) []
                               (elements (stacktrace ee))) s1
                     else s1)
           in case payload ee of
                None \<Rightarrow> Inr (s2, Nil)
              | Some p \<Rightarrow>
                  (case AddReflected encoder ''payload'' p s2 of
                     (s3, e) \<Rightarrow> if e \<noteq> Nil then Inr (s3, e) else Inr (s3, Nil))))"

text \<open>
  The three constructors of \<^verbatim>\<open>zap.Field\<close> the package uses: \<^verbatim>\<open>zap.Object(key, ee)\<close>
  keeps the marshaler \<open>ee\<close>, \<^verbatim>\<open>zap.Any(key, m)\<close> keeps the \<^verbatim>\<open>map[string]string\<close>
  \<open>m\<close>, \<^verbatim>\<open>zap.Skip()\<close> is the no-op field.
\<close>

datatype 'p Field =
    zap_Object string "'p Error"
  | zap_Any string "string \<rightharpoonup> string"
  | zap_Skip

definition Field :: "'p error \<Rightarrow> panic + 'p Field" where
  "Field e =
     (case errors_As e T_Error of
        Some (Enriched ee) \<Rightarrow> Inr (zap_Object ''error'' ee)
      | _ \<Rightarrow>
          if e \<noteq> Nil
          then map_sum id (\<lambda>text. zap_Any ''error'' [''message'' \<mapsto> text]) (call_Error e)
          else Inr zap_Skip)"

text \<open>
  \<^verbatim>\<open>zapcore.MapObjectEncoder\<close>, the encoder of zap that keeps the entries in a map:
  \<^verbatim>\<open>AddString\<close> stores the string under the key, \<^verbatim>\<open>AddReflected\<close> stores the value
  under the key and returns nil.
\<close>

datatype 'p entry = String_entry string | Reflected_entry 'p

definition MapObjectEncoder :: "(string \<rightharpoonup> 'p entry, 'p) ObjectEncoder" where
  "MapObjectEncoder =
     \<lparr>AddString = (\<lambda>k v m. m(k \<mapsto> String_entry v)),
      AddReflected = (\<lambda>k v m. (m(k \<mapsto> Reflected_entry v), Nil))\<rparr>"

section \<open>A model of package fmt\<close>

text \<open>
  An instance of the parameter \<open>fmt\<close>: the behaviour of \<^verbatim>\<open>fmt.Sprintf\<close> and
  \<^verbatim>\<open>fmt.Errorf\<close> on formats made of text, \<^verbatim>\<open>%%\<close> and the verbs \<^verbatim>\<open>%v\<close>, \<^verbatim>\<open>%s\<close> and
  \<^verbatim>\<open>%w\<close> (at most one \<^verbatim>\<open>%w\<close>), applied to operands that are strings or errors made
  by \<^verbatim>\<open>errors.New\<close>. Flags, widths, operand indexes and the other verbs of the package
  are outside this model: every other character after \<^verbatim>\<open>%\<close> is printed as a verb the
  operand does not support.
\<close>

datatype operand = String_operand string | Error_operand string

fun type_name :: "operand \<Rightarrow> string" where
  "type_name (String_operand s) = ''string''"
| "type_name (Error_operand t) = ''*errors.errorString''"

text \<open>The verbs \<^verbatim>\<open>%v\<close> and \<^verbatim>\<open>%s\<close>: a string as it is, an error by its \<^verbatim>\<open>Error()\<close> method.\<close>

fun print_v :: "operand \<Rightarrow> string" where
  "print_v (String_operand s) = s"
| "print_v (Error_operand t) = t"

text \<open>
  The operand as printed inside a bad-verb report, where methods are not called: the
  \<^verbatim>\<open>*errors.errorString\<close> is printed as a pointer to a struct with one string field.
\<close>

fun print_reflect :: "operand \<Rightarrow> string" where
  "print_reflect (String_operand s) = s"
| "print_reflect (Error_operand t) = ''&{'' @ t @ ''}''"

definition badVerb :: "char \<Rightarrow> operand \<Rightarrow> string" where
  "badVerb verb x = ''%!'' @ [verb] @ ''('' @ type_name x @ ''='' @ print_reflect x @ '')''"

text \<open>
  One operand under one verb. \<open>wrapErrs\<close> is set by \<^verbatim>\<open>fmt.Errorf\<close> only: there
  \<^verbatim>\<open>%w\<close> on an error is \<^verbatim>\<open>%v\<close>; everywhere else \<^verbatim>\<open>%w\<close> is a bad verb.
\<close>

fun printArg :: "bool \<Rightarrow> char \<Rightarrow> operand \<Rightarrow> string" where
  "printArg wrapErrs verb x =
     (if verb = CHR ''v'' \<or> verb = CHR ''s'' then print_v x
      else if verb = CHR ''w'' \<and> wrapErrs \<and> (case x of Error_operand t \<Rightarrow> True | _ \<Rightarrow> False)
      then print_v x
      else badVerb verb x)"

fun extra :: "operand list \<Rightarrow> string" where
  "extra [] = []"
| "extra [x] = type_name x @ ''='' @ print_v x"
| "extra (x # y # ys) = type_name x @ ''='' @ print_v x @ '', '' @ extra (y # ys)"

text \<open>The text printed for a format and its operands.\<close>

fun doPrintf :: "bool \<Rightarrow> string \<Rightarrow> operand list \<Rightarrow> string" where
  "doPrintf wrapErrs [] [] = []"
| "doPrintf wrapErrs [] (x # xs) = ''%!(EXTRA '' @ extra (x # xs) @ '')''"
| "doPrintf wrapErrs [c] a =
     (if c = CHR ''%'' then ''%!(NOVERB)'' else [c]) @ doPrintf wrapErrs [] a"
| "doPrintf wrapErrs (c # verb # rest) a =
     (if c \<noteq> CHR ''%'' then c # doPrintf wrapErrs (verb # rest) a
      else if verb = CHR ''%'' then CHR ''%'' # doPrintf wrapErrs rest a
      else case a of
             [] \<Rightarrow> ''%!'' @ [verb] @ ''(MISSING)'' @ doPrintf wrapErrs rest []
           | x # xs \<Rightarrow> printArg wrapErrs verb x @ doPrintf wrapErrs rest xs)"

text \<open>The error operand of the verb \<^verbatim>\<open>%w\<close>, which \<^verbatim>\<open>fmt.Errorf\<close> wraps.\<close>

fun wrappedErr :: "string \<Rightarrow> operand list \<Rightarrow> 'p error" where
  "wrappedErr (c # verb # rest) a =
     (if c \<noteq> CHR ''%'' then wrappedErr (verb # rest) a
      else if verb = CHR ''%'' then wrappedErr rest a
      else case a of
             [] \<Rightarrow> Nil
           | Error_operand t # xs \<Rightarrow>
               if verb = CHR ''w'' then Plain t Nil else wrappedErr rest xs
           | x # xs \<Rightarrow> wrappedErr rest xs)"
| "wrappedErr format a = Nil"

definition go_fmt :: "(operand, 'p) fmt" where
  "go_fmt =
     \<lparr>Sprintf = doPrintf False,
      fmt_Errorf = (\<lambda>format a. Plain (doPrintf True format a) (wrappedErr format a))\<rparr>"

section \<open>The cause chain\<close>

text \<open>
  The cause chain of an error, outermost value first: the error, the error it wraps,
  and so on, up to the nil interface (which is not part of the chain).
\<close>

fun cause_chain :: "'p error \<Rightarrow> 'p error list" where
  "cause_chain Nil = []"
| "cause_chain (Plain t c) = Plain t c # cause_chain c"
| "cause_chain (Enriched (Error m p cd st c)) = Enriched (Error m p cd st c) # cause_chain c"

fun is_Enriched :: "'p error \<Rightarrow> bool" where
  "is_Enriched (Enriched ee) = True"
| "is_Enriched e = False"

definition first_Enriched :: "'p error \<Rightarrow> 'p error option" where
  "first_Enriched e = find is_Enriched (cause_chain e)"

definition contains_Enriched :: "'p error \<Rightarrow> bool" where
  "contains_Enriched e = (first_Enriched e \<noteq> None)"

text \<open>
  The reading of \<open>Unwrap\<close> in the specification: the immediate cause of the first
  Enriched Error of the chain, and the error itself when the chain has none.
\<close>

definition Unwrap_spec :: "'p error \<Rightarrow> 'p error" where
  "Unwrap_spec e =
     (case first_Enriched e of Some (Enriched ee) \<Rightarrow> err ee | _ \<Rightarrow> e)"

text \<open>
  The reading of the stack-trace entry in the specification: for each frame the function
  name, a newline, then file:line; one such entry per line.
\<close>

definition frame_spec :: "Frame \<Rightarrow> string" where
  "frame_spec frame = Function frame @ [CHR 0x0A] @ File frame @ '':'' @ format_d (Line frame)"

section \<open>An example call stack\<close>

text \<open>
  The stack \<^verbatim>\<open>runtime.Callers\<close> sees when \<^verbatim>\<open>main.main\<close> calls \<^verbatim>\<open>main.run\<close>, which
  calls the function \<open>caller\<close> of this package (at line \<open>line\<close> of errors.go), which
  calls \<open>stackTrace\<close>: innermost frame first, down to the two frames of the runtime
  under \<^verbatim>\<open>main.main\<close>.
\<close>

definition example_stack :: "string \<Rightarrow> int \<Rightarrow> Frame list" where
  "example_stack caller line =
     [\<lparr>Function = ''runtime.Callers'', File = ''runtime/extern.go'', Line = 331\<rparr>,
      \<lparr>Function = ''errors.stackTrace'', File = ''errors.go'', Line = 88\<rparr>,
      \<lparr>Function = caller, File = ''errors.go'', Line = line\<rparr>,
      \<lparr>Function = ''main.run'', File = ''main.go'', Line = 12\<rparr>,
      \<lparr>Function = ''main.main'', File = ''main.go'', Line = 7\<rparr>,
      \<lparr>Function = ''runtime.main'', File = ''runtime/proc.go'', Line = 283\<rparr>,
      \<lparr>Function = ''runtime.goexit'', File = ''runtime/asm_amd64.s'', Line = 1700\<rparr>]"

text \<open>The frames \<open>stackTrace\<close> returns on that stack.\<close>

definition example_trace :: "Frame list" where
  "example_trace =
     [\<lparr>Function = ''main.run'', File = ''main.go'', Line = 12\<rparr>,
      \<lparr>Function = ''main.main'', File = ''main.go'', Line = 7\<rparr>,
      \<lparr>Function = ''runtime.main'', File = ''runtime/proc.go'', Line = 283\<rparr>]"

text \<open>
  The stack when \<^verbatim>\<open>main.main\<close> itself calls the function \<open>caller\<close> of this package, and
  the frames \<open>stackTrace\<close> returns on it.
\<close>

definition example_stack_main :: "string \<Rightarrow> int \<Rightarrow> Frame list" where
  "example_stack_main caller line =
     [\<lparr>Function = ''runtime.Callers'', File = ''runtime/extern.go'', Line = 331\<rparr>,
      \<lparr>Function = ''errors.stackTrace'', File = ''errors.go'', Line = 88\<rparr>,
      \<lparr>Function = caller, File = ''errors.go'', Line = line\<rparr>,
      \<lparr>Function = ''main.main'', File = ''main.go'', Line = 9\<rparr>,
      \<lparr>Function = ''runtime.main'', File = ''runtime/proc.go'', Line = 283\<rparr>,
      \<lparr>Function = ''runtime.goexit'', File = ''runtime/asm_amd64.s'', Line = 1700\<rparr>]"

definition example_trace_main :: "Frame list" where
  "example_trace_main =
     [\<lparr>Function = ''main.main'', File = ''main.go'', Line = 9\<rparr>,
      \<lparr>Function = ''runtime.main'', File = ''runtime/proc.go'', Line = 283\<rparr>]"

section \<open>Facts about the collaborators\<close>

lemma traceFrames_loop_butlast: "traceFrames_loop frames acc = acc @ butlast frames"
proof (induction frames acc rule: traceFrames_loop.induct)
  case (1 frames traceFrames)
  show ?case
  proof (cases frames)
    case Nil
    then show ?thesis by (simp add: traceFrames_loop.simps [of "[]"])
  next
    case (Cons f fs)
    show ?thesis
    proof (cases "fs = []")
      case True
      with Cons show ?thesis by (simp add: traceFrames_loop.simps [of "[f]"])
    next
      case False
      with Cons have "Frames_Next frames = (f, True, fs)" by simp
      with 1 [of f "(True, fs)" True fs]
      have "traceFrames_loop fs (traceFrames @ [f]) = (traceFrames @ [f]) @ butlast fs"
        by simp
      with Cons False show ?thesis by (simp add: traceFrames_loop.simps [of "f # fs"])
    qed
  qed
qed

text \<open>
  With the three frames of \<^verbatim>\<open>runtime.Callers\<close>, \<open>stackTrace\<close> and its caller on the
  stack the capture does not panic: it skips these three, reads at most seven frames and
  leaves out the last frame it read.
\<close>

lemma stackTrace_captured:
  "3 \<le> length stack \<Longrightarrow> stackTrace stack = Inr (butlast (take 7 (drop 3 stack)))"
  by (simp add: stackTrace_def runtime_Callers_def Let_def traceFrames_loop_butlast
      drop_take min_def)

lemma stackTrace_panics: "length stack < 3 \<Longrightarrow> stackTrace stack = Inl SliceBoundsOutOfRange"
  by (simp add: stackTrace_def runtime_Callers_def Let_def)

lemma errors_As_any: "errors_As e T_any = (if e = Nil then None else Some e)"
proof (cases e)
  case (Enriched ee)
  then show ?thesis by (cases ee) simp
qed simp_all

lemma errors_As_first_Enriched: "errors_As e T_Error = first_Enriched e"
  unfolding first_Enriched_def
  by (induction e T_Error rule: errors_As.induct) auto

lemma As_iff_not_nil: "As e target = (e \<noteq> Nil)"
  by (simp add: As_def errors_As_any)

section \<open>Chain inspection: As\<close>

text \<open>
  C1. \<open>As(err, target)\<close> is to return true exactly when a value of the chain of \<open>err\<close> is
  assignable to the type \<open>target\<close> points to, and false for a pointer to \<open>Error\<close> when
  the chain has no Enriched Error. The code takes the address of its own parameter, so
  the walk sees the target type \<^verbatim>\<open>interface{}\<close>: for the plain error made by
  \<^verbatim>\<open>errors.New("plain")\<close> and a target of type \<^verbatim>\<open>*Error\<close> it returns true, although
  the chain holds no Enriched Error and \<^verbatim>\<open>errors.As\<close> with that target finds nothing.
\<close>

theorem As_plain_error_true:
  "As (Plain ''plain'' Nil :: nat error) T_Error = True
   \<and> contains_Enriched (Plain ''plain'' Nil :: nat error) = False
   \<and> errors_As (Plain ''plain'' Nil :: nat error) T_Error = None"
  by (simp add: As_def contains_Enriched_def first_Enriched_def)

section \<open>Chain inspection: Unwrap\<close>

lemma first_Enriched_cases:
  "first_Enriched e = None \<or> (\<exists>ee. first_Enriched e = Some (Enriched ee))"
  unfolding first_Enriched_def
  by (induction e rule: cause_chain.induct) auto

lemma first_Enriched_Enriched: "first_Enriched (Enriched ee) = Some (Enriched ee)"
  by (cases ee) (simp add: first_Enriched_def)

lemma first_Enriched_Plain: "first_Enriched (Plain t c) = first_Enriched c"
  by (simp add: first_Enriched_def)

lemma first_Enriched_Nil: "first_Enriched Nil = None"
  by (simp add: first_Enriched_def)

text \<open>
  C2, as the claim states it, fails: for a plain error that wraps an Enriched Error
  (made by \<^verbatim>\<open>fmt.Errorf("ctx: %w", e)\<close>, say) the chain contains an Enriched Error, and
  \<open>Unwrap\<close> returns the cause of the plain error, which is the Enriched Error itself, not
  the cause of that Enriched Error.
\<close>

theorem Unwrap_not_cause_of_first_Enriched:
  "contains_Enriched
     (Plain ''ctx'' (Enriched (Error ''m'' None 0 None (Plain ''root'' Nil))) :: nat error)
   \<and> Unwrap (Plain ''ctx'' (Enriched (Error ''m'' None 0 None (Plain ''root'' Nil))) :: nat error)
       = Enriched (Error ''m'' None 0 None (Plain ''root'' Nil))
   \<and> Unwrap_spec
         (Plain ''ctx'' (Enriched (Error ''m'' None 0 None (Plain ''root'' Nil))) :: nat error)
       = Plain ''root'' Nil
   \<and> Unwrap (Plain ''ctx'' (Enriched (Error ''m'' None 0 None (Plain ''root'' Nil))) :: nat error)
       \<noteq> Unwrap_spec (Plain ''ctx'' (Enriched (Error ''m'' None 0 None (Plain ''root'' Nil))))"
  by (simp add: Unwrap_def Error_Unwrap_def Unwrap_spec_def contains_Enriched_def
      first_Enriched_def)

text \<open>
  C2, amended. \<open>Unwrap\<close> removes the outermost layer of its argument when the chain
  contains an Enriched Error: an Enriched Error gives its immediate cause, a plain error
  whose chain contains an Enriched Error gives its own immediate cause. An error whose
  chain contains no Enriched Error is returned as it is (so a non-nil one is never turned
  into nil).
\<close>

theorem Unwrap_removes_outer_layer:
  "Unwrap (Enriched ee) = err ee
   \<and> (contains_Enriched c \<longrightarrow> Unwrap (Plain t c) = c)
   \<and> (\<not> contains_Enriched e \<longrightarrow> Unwrap e = e)"
  by (simp add: Unwrap_def Error_Unwrap_def errors_As_first_Enriched contains_Enriched_def
      first_Enriched_Enriched first_Enriched_Plain)

theorem Unwrap_removes_outer_layer_witness:
  "Unwrap (Enriched (Error ''m'' None 0 None (Plain ''root'' Nil)) :: nat error)
     = Plain ''root'' Nil
   \<and> contains_Enriched (Enriched (Error ''m'' None 0 None (Plain ''root'' Nil)) :: nat error)
   \<and> Unwrap (Plain ''ctx'' (Enriched (Error ''m'' None 0 None (Plain ''root'' Nil))) :: nat error)
       = Enriched (Error ''m'' None 0 None (Plain ''root'' Nil))
   \<and> \<not> contains_Enriched (Plain ''root'' Nil :: nat error)
   \<and> Unwrap (Plain ''root'' Nil :: nat error) = Plain ''root'' Nil"
  using Unwrap_removes_outer_layer
    [of "Error ''m'' None 0 None (Plain ''root'' Nil) :: nat Error"
        "Enriched (Error ''m'' None 0 None (Plain ''root'' Nil))" "''ctx''"
        "Plain ''root'' Nil"]
  by (simp add: contains_Enriched_def first_Enriched_def)

section \<open>Rendering into a structured record\<close>

lemma buffer_foldl:
  "foldl (\<lambda>buffer frame. buffer @ g frame) acc frames = acc @ concat (map g frames)"
  by (induction frames arbitrary: acc) auto

lemma call_Error_not_nil: "e \<noteq> Nil \<Longrightarrow> \<exists>t. call_Error e = Inr t"
  by (cases e) auto

text \<open>
  The record \<open>MarshalLogObject\<close> leaves in the map encoder of zap, when the message is
  empty or the cause is not nil.
\<close>

lemma MarshalLogObject_Map:
  "message ee = [] \<or> call_Error (err ee) = Inr t \<Longrightarrow>
   MarshalLogObject MapObjectEncoder ee m0 =
     Inr (let m1 = (if message ee = [] then m0 else m0(''message'' \<mapsto> String_entry t));
              m2 = (if len (stacktrace ee) = 0 then m1
                    else m1(''stacktrace'' \<mapsto>
                           String_entry (concat (map Fprintf_frame (elements (stacktrace ee))))))
          in case payload ee of None \<Rightarrow> (m2, Nil)
             | Some p \<Rightarrow> (m2(''payload'' \<mapsto> Reflected_entry p), Nil))"
  by (auto simp: MarshalLogObject_def MapObjectEncoder_def buffer_foldl Let_def
      split: option.splits)

text \<open>
  C3, as the claim states it, fails: the format of the source is
  \<^verbatim>\<open>"%s\t\n%s:%d\n"\<close>, so the entry of a frame is the function name, a tab, a newline,
  file:line and a newline, not the function name, a newline and file:line.
\<close>

theorem stacktrace_entry_has_tab:
  "MarshalLogObject MapObjectEncoder
     (Error [] None 0 (Some [\<lparr>Function = ''main.run'', File = ''main.go'', Line = 12\<rparr>]) Nil
        :: nat Error) Map.empty
     = Inr ([''stacktrace'' \<mapsto>
              String_entry (''main.run'' @ [CHR 0x09, CHR 0x0A] @ ''main.go:12'' @ [CHR 0x0A])], Nil)
   \<and> frame_spec \<lparr>Function = ''main.run'', File = ''main.go'', Line = 12\<rparr>
       = ''main.run'' @ [CHR 0x0A] @ ''main.go:12''
   \<and> ''main.run'' @ [CHR 0x09, CHR 0x0A] @ ''main.go:12'' @ [CHR 0x0A]
       \<noteq> frame_spec \<lparr>Function = ''main.run'', File = ''main.go'', Line = 12\<rparr>"
  by (simp add: MarshalLogObject_def MapObjectEncoder_def len_def elements_def Fprintf_frame_def
      frame_spec_def format_d_def decimal.simps)

text \<open>
  C3, amended. When an Enriched Error with at least one captured frame is rendered (its
  message empty or its cause not nil), the stacktrace entry is the concatenation, in the
  order of the captured frames, of one piece per frame: the function name, a tab, a
  newline, the file, a colon, the line number in decimal, a newline.
\<close>

theorem stacktrace_entry_format:
  "message ee = [] \<or> err ee \<noteq> Nil \<Longrightarrow> stacktrace ee = Some frames \<Longrightarrow> frames \<noteq> [] \<Longrightarrow>
   \<exists>m r. MarshalLogObject MapObjectEncoder ee m0 = Inr (m, r)
     \<and> m ''stacktrace'' =
         Some (String_entry (concat (map (\<lambda>frame.
           Function frame @ [CHR 0x09, CHR 0x0A] @ File frame @ '':'' @ format_d (Line frame)
             @ [CHR 0x0A]) frames)))"
proof -
  assume a: "message ee = [] \<or> err ee \<noteq> Nil" and s: "stacktrace ee = Some frames"
    and f: "frames \<noteq> []"
  from a obtain t where "message ee = [] \<or> call_Error (err ee) = Inr t"
    using call_Error_not_nil by blast
  from MarshalLogObject_Map [OF this, of m0] s f show ?thesis
    by (auto simp: Let_def len_def elements_def Fprintf_frame_def [abs_def]
        split: option.splits)
qed

theorem stacktrace_entry_format_witness:
  "stacktrace
     (Error [] None 0
        (Some [\<lparr>Function = ''main.run'', File = ''main.go'', Line = 12\<rparr>,
               \<lparr>Function = ''main.main'', File = ''main.go'', Line = 7\<rparr>]) Nil :: nat Error)
     = Some [\<lparr>Function = ''main.run'', File = ''main.go'', Line = 12\<rparr>,
             \<lparr>Function = ''main.main'', File = ''main.go'', Line = 7\<rparr>]
   \<and> (\<exists>m r. MarshalLogObject MapObjectEncoder
         (Error [] None 0
            (Some [\<lparr>Function = ''main.run'', File = ''main.go'', Line = 12\<rparr>,
                   \<lparr>Function = ''main.main'', File = ''main.go'', Line = 7\<rparr>]) Nil
            :: nat Error) Map.empty = Inr (m, r)
     \<and> m ''stacktrace'' = Some (String_entry
           (''main.run'' @ [CHR 0x09, CHR 0x0A] @ ''main.go:12'' @ [CHR 0x0A]
            @ ''main.main'' @ [CHR 0x09, CHR 0x0A] @ ''main.go:7'' @ [CHR 0x0A])))"
  using stacktrace_entry_format
    [of "Error [] None 0
           (Some [\<lparr>Function = ''main.run'', File = ''main.go'', Line = 12\<rparr>,
                  \<lparr>Function = ''main.main'', File = ''main.go'', Line = 7\<rparr>]) Nil :: nat Error"
        "[\<lparr>Function = ''main.run'', File = ''main.go'', Line = 12\<rparr>,
          \<lparr>Function = ''main.main'', File = ''main.go'', Line = 7\<rparr>]" Map.empty]
  by (simp add: format_d_def decimal.simps)

lemma example_stack_trace: "stackTrace (example_stack caller line) = Inr example_trace"
  by (simp add: stackTrace_captured example_stack_def example_trace_def)

lemma length_example_stack: "3 \<le> length (example_stack caller line)"
  by (simp add: example_stack_def)

lemma example_stack_main_trace:
  "stackTrace (example_stack_main caller line) = Inr example_trace_main"
  by (simp add: stackTrace_captured example_stack_main_def example_trace_main_def)

lemma length_example_stack_main: "3 \<le> length (example_stack_main caller line)"
  by (simp add: example_stack_main_def)

lemma returned_error:
  "(case x of (s3, e) \<Rightarrow> if e \<noteq> Nil then Inr (s3, e) else Inr (s3, Nil)) = Inr x"
  by (cases x) auto

text \<open>
  C7. When an Enriched Error with a non-empty message and a cause of text \<open>t\<close> is
  rendered, the message entry of the record is \<open>t\<close>, the text of the wrapped cause,
  whatever the accumulated message of the error is; the \<open>Error()\<close> method of the error
  returns the accumulated message.
\<close>

theorem message_entry_is_cause_text:
  "message ee \<noteq> [] \<Longrightarrow> call_Error (err ee) = Inr t \<Longrightarrow>
   \<exists>m r. MarshalLogObject MapObjectEncoder ee m0 = Inr (m, r)
     \<and> m ''message'' = Some (String_entry t)
     \<and> Error_Error ee = message ee"
proof -
  assume a: "message ee \<noteq> []" and c: "call_Error (err ee) = Inr t"
  from c have "message ee = [] \<or> call_Error (err ee) = Inr t" by simp
  from MarshalLogObject_Map [OF this, of m0] a show ?thesis
    by (auto simp: Let_def Error_Error_def split: option.splits)
qed

theorem message_entry_is_cause_text_witness:
  "message (Error ''init service: db connect failed'' None 0 (Some example_trace)
              (Plain ''db connect failed'' Nil) :: nat Error) \<noteq> []
   \<and> call_Error (Plain ''db connect failed'' Nil :: nat error) = Inr ''db connect failed''
   \<and> (\<exists>m r. MarshalLogObject MapObjectEncoder
          (Error ''init service: db connect failed'' None 0 (Some example_trace)
              (Plain ''db connect failed'' Nil) :: nat Error) Map.empty = Inr (m, r)
        \<and> m ''message'' = Some (String_entry ''db connect failed''))
   \<and> Error_Error (Error ''init service: db connect failed'' None 0 (Some example_trace)
              (Plain ''db connect failed'' Nil) :: nat Error)
       = ''init service: db connect failed''"
  using message_entry_is_cause_text
    [of "Error ''init service: db connect failed'' None 0 (Some example_trace)
              (Plain ''db connect failed'' Nil) :: nat Error" "''db connect failed''" Map.empty]
  by auto

text \<open>
  C10. Rendering is to be total on every Enriched Error the constructors can return.
  \<open>WithMessage(nil, "boom")\<close> returns an Enriched Error with the message \<open>boom\<close> and a
  nil cause; \<open>Field\<close> wraps it into an object field; rendering that object calls
  \<^verbatim>\<open>ee.err.Error()\<close> on the nil interface and panics.
\<close>

theorem MarshalLogObject_nil_cause_panics:
  "WithMessage go_fmt (example_stack ''errors.WithMessage'' 66) (Nil :: nat error) ''boom'' []
     = Inr (Error ''boom'' None 0 (Some example_trace) Nil)
   \<and> Field (Enriched (Error ''boom'' None 0 (Some example_trace) Nil) :: nat error)
     = Inr (zap_Object ''error'' (Error ''boom'' None 0 (Some example_trace) Nil))
   \<and> MarshalLogObject MapObjectEncoder
        (Error ''boom'' None 0 (Some example_trace) Nil :: nat Error) Map.empty
     = Inl NilDereference"
  by (simp add: WithMessage_def Field_def MarshalLogObject_def go_fmt_def example_stack_trace)

section \<open>The builders\<close>

text \<open>
  C9. \<open>WithPayload\<close> and \<open>WithCode\<close> return the receiver with the payload, respectively
  the code, replaced and the four other fields as they were; \<open>WithStacktrace\<close> returns
  the receiver with the stack trace replaced by the frames captured at the call and the
  four other fields as they were. When an Enriched Error with a payload is rendered, the
  call returns the state and the error that \<open>AddReflected\<close> of the encoder returned for
  the payload: a failure to encode the payload is the error of the rendering call.
\<close>

theorem builders_set_one_field:
  "message (WithPayload ee p) = message ee \<and> payload (WithPayload ee p) = p
   \<and> code (WithPayload ee p) = code ee \<and> stacktrace (WithPayload ee p) = stacktrace ee
   \<and> err (WithPayload ee p) = err ee
   \<and> message (WithCode ee c) = message ee \<and> payload (WithCode ee c) = payload ee
   \<and> code (WithCode ee c) = c \<and> stacktrace (WithCode ee c) = stacktrace ee
   \<and> err (WithCode ee c) = err ee
   \<and> (3 \<le> length stack \<longrightarrow>
        (\<exists>st r. stackTrace stack = Inr st \<and> WithStacktrace stack ee = Inr r
           \<and> message r = message ee \<and> payload r = payload ee \<and> code r = code ee
           \<and> stacktrace r = Some st \<and> err r = err ee))
   \<and> (payload ee = Some q \<and> (message ee = [] \<or> err ee \<noteq> Nil) \<longrightarrow>
        (\<exists>s2. MarshalLogObject encoder ee s = Inr (AddReflected encoder ''payload'' q s2)))"
proof -
  have a: "3 \<le> length stack \<longrightarrow>
        (\<exists>st r. stackTrace stack = Inr st \<and> WithStacktrace stack ee = Inr r
           \<and> message r = message ee \<and> payload r = payload ee \<and> code r = code ee
           \<and> stacktrace r = Some st \<and> err r = err ee)"
    by (simp add: WithStacktrace_def stackTrace_captured)
  have b: "payload ee = Some q \<and> (message ee = [] \<or> err ee \<noteq> Nil) \<longrightarrow>
        (\<exists>s2. MarshalLogObject encoder ee s = Inr (AddReflected encoder ''payload'' q s2))"
  proof (intro impI, elim conjE)
    assume q: "payload ee = Some q" and m: "message ee = [] \<or> err ee \<noteq> Nil"
    from m obtain t where "message ee = [] \<or> call_Error (err ee) = Inr t"
      using call_Error_not_nil by blast
    then show "\<exists>s2. MarshalLogObject encoder ee s = Inr (AddReflected encoder ''payload'' q s2)"
      using q by (auto simp: MarshalLogObject_def Let_def returned_error)
  qed
  show ?thesis using a b by (simp add: WithPayload_def WithCode_def)
qed

theorem builders_set_one_field_witness:
  "payload (WithPayload (Error ''x'' (Some 1) 404 None (Plain ''x'' Nil) :: nat Error) (Some 2))
     = Some 2
   \<and> code (WithCode (Error ''x'' (Some 1) 404 None (Plain ''x'' Nil) :: nat Error) 7) = 7
   \<and> 3 \<le> length (example_stack ''errors.WithStacktrace'' 82)
   \<and> WithStacktrace (example_stack ''errors.WithStacktrace'' 82)
        (Error ''x'' (Some 1) 404 None (Plain ''x'' Nil) :: nat Error)
     = Inr (Error ''x'' (Some 1) 404 (Some example_trace) (Plain ''x'' Nil))
   \<and> payload (Error ''x'' (Some 1) 404 None (Plain ''x'' Nil) :: nat Error) = Some 1
   \<and> err (Error ''x'' (Some 1) 404 None (Plain ''x'' Nil) :: nat Error) \<noteq> Nil
   \<and> MarshalLogObject
        \<lparr>AddString = (\<lambda>k v s. s @ [(k, v)]),
         AddReflected = (\<lambda>k v s. (s, Plain ''json: unsupported value'' Nil))\<rparr>
        (Error ''x'' (Some 1) 404 None (Plain ''x'' Nil) :: nat Error) []
     = Inr ([(''message'', ''x'')], Plain ''json: unsupported value'' Nil)"
  using builders_set_one_field
    [of "Error ''x'' (Some 1) 404 None (Plain ''x'' Nil) :: nat Error" "Some 2" 7
        "example_stack ''errors.WithStacktrace'' 82" 1
        "\<lparr>AddString = (\<lambda>k v s. s @ [(k, v)]),
          AddReflected = (\<lambda>k v s. (s, Plain ''json: unsupported value'' Nil))\<rparr>" "[]"]
  by (simp add: WithPayload_def WithCode_def WithStacktrace_def example_stack_trace
      MarshalLogObject_def len_def length_example_stack)

section \<open>The log field\<close>

text \<open>
  C8. \<open>Field(err)\<close> is an object field named \<open>error\<close> that carries the first Enriched
  Error of the chain of \<open>err\<close> (rendered by \<open>MarshalLogObject\<close> when the field is
  encoded) when the chain contains one; a field named \<open>error\<close> that carries the map
  from \<open>message\<close> to the text of \<open>err\<close> when \<open>err\<close> is not nil and its chain contains
  no Enriched Error; the no-op field when \<open>err\<close> is nil. The call never panics.
\<close>

theorem Field_cases:
  "(first_Enriched (e :: 'p error) = Some (Enriched ee) \<longrightarrow>
      Field e = Inr (zap_Object ''error'' ee))
   \<and> (\<not> contains_Enriched e \<and> e \<noteq> Nil \<longrightarrow>
        (\<exists>t. call_Error e = Inr t \<and> Field e = Inr (zap_Any ''error'' [''message'' \<mapsto> t])))
   \<and> Field (Nil :: 'p error) = Inr zap_Skip"
proof -
  have a: "first_Enriched e = Some (Enriched ee) \<longrightarrow> Field e = Inr (zap_Object ''error'' ee)"
    by (simp add: Field_def errors_As_first_Enriched)
  have b: "\<not> contains_Enriched e \<and> e \<noteq> Nil \<longrightarrow>
        (\<exists>t. call_Error e = Inr t \<and> Field e = Inr (zap_Any ''error'' [''message'' \<mapsto> t]))"
  proof (intro impI, elim conjE)
    assume n: "\<not> contains_Enriched e" and e: "e \<noteq> Nil"
    from e obtain t where t: "call_Error e = Inr t"
      using call_Error_not_nil by blast
    from n have "errors_As e T_Error = None"
      by (simp add: contains_Enriched_def errors_As_first_Enriched)
    with e t have "Field e = Inr (zap_Any ''error'' [''message'' \<mapsto> t])"
      by (simp add: Field_def)
    with t show "\<exists>t. call_Error e = Inr t \<and> Field e = Inr (zap_Any ''error'' [''message'' \<mapsto> t])"
      by blast
  qed
  have c: "Field (Nil :: 'p error) = Inr zap_Skip"
    by (simp add: Field_def)
  from a b c show ?thesis by blast
qed


theorem Field_cases_witness:
  "first_Enriched (Plain ''ctx: x'' (Enriched (Error ''x'' None 0 None (Plain ''x'' Nil))) :: nat error)
     = Some (Enriched (Error ''x'' None 0 None (Plain ''x'' Nil)))
   \<and> Field (Plain ''ctx: x'' (Enriched (Error ''x'' None 0 None (Plain ''x'' Nil))) :: nat error)
     = Inr (zap_Object ''error'' (Error ''x'' None 0 None (Plain ''x'' Nil)))
   \<and> \<not> contains_Enriched (Plain ''eof'' Nil :: nat error)
   \<and> (Plain ''eof'' Nil :: nat error) \<noteq> Nil
   \<and> Field (Plain ''eof'' Nil :: nat error) = Inr (zap_Any ''error'' [''message'' \<mapsto> ''eof''])
   \<and> Field (Nil :: nat error) = Inr zap_Skip"
  using Field_cases
    [of "Plain ''ctx: x'' (Enriched (Error ''x'' None 0 None (Plain ''x'' Nil))) :: nat error"
        "Error ''x'' None 0 None (Plain ''x'' Nil)"]
    Field_cases [of "Plain ''eof'' Nil :: nat error"]
  by (simp add: first_Enriched_def contains_Enriched_def)

section \<open>Construction: WithMessage\<close>

text \<open>
  C4. When the chain of \<open>err\<close> contains an Enriched Error, \<open>WithMessage\<close> returns the
  first one of the chain with its message replaced by the formatted prefix, a colon and a
  space, and the message it had; with its stack trace kept when it had one (a non-nil
  slice) and captured at this call when it had none; and with its payload, code and cause
  as they were.
\<close>

theorem WithMessage_on_enriched:
  "first_Enriched e = Some (Enriched parent) \<Longrightarrow>
   (stacktrace parent \<noteq> None \<longrightarrow>
      WithMessage F stack e format a =
        Inr (Error (Sprintf F format a @ '': '' @ message parent) (payload parent)
               (code parent) (stacktrace parent) (err parent)))
   \<and> (stacktrace parent = None \<and> 3 \<le> length stack \<longrightarrow>
        (\<exists>st. stackTrace stack = Inr st
           \<and> WithMessage F stack e format a =
               Inr (Error (Sprintf F format a @ '': '' @ message parent) (payload parent)
                      (code parent) (Some st) (err parent))))"
  by (auto simp: WithMessage_def errors_As_first_Enriched stackTrace_captured)


theorem WithMessage_on_enriched_witness:
  "first_Enriched
     (Enriched (Error ''db connect failed'' None 0 (Some example_trace)
                  (Plain ''db connect failed'' Nil)) :: nat error)
     = Some (Enriched (Error ''db connect failed'' None 0 (Some example_trace)
                         (Plain ''db connect failed'' Nil)))
   \<and> WithMessage go_fmt [] 
        (Enriched (Error ''db connect failed'' None 0 (Some example_trace)
                     (Plain ''db connect failed'' Nil)) :: nat error) ''init %s'' [String_operand ''service'']
     = Inr (Error ''init service: db connect failed'' None 0 (Some example_trace)
              (Plain ''db connect failed'' Nil))
   \<and> first_Enriched (Plain ''ctx: x'' (Enriched (Error ''x'' (Some 1) 404 None (Plain ''x'' Nil))) :: nat error)
     = Some (Enriched (Error ''x'' (Some 1) 404 None (Plain ''x'' Nil)))
   \<and> 3 \<le> length (example_stack ''errors.WithMessage'' 59)
   \<and> WithMessage go_fmt (example_stack ''errors.WithMessage'' 59)
        (Plain ''ctx: x'' (Enriched (Error ''x'' (Some 1) 404 None (Plain ''x'' Nil))) :: nat error)
        ''handler'' []
     = Inr (Error ''handler: x'' (Some 1) 404 (Some example_trace) (Plain ''x'' Nil))"
  using WithMessage_on_enriched
    [of "Enriched (Error ''db connect failed'' None 0 (Some example_trace)
                     (Plain ''db connect failed'' Nil)) :: nat error"
        "Error ''db connect failed'' None 0 (Some example_trace) (Plain ''db connect failed'' Nil)"
        "go_fmt" "[]" "''init %s''" "[String_operand ''service'']"]
    WithMessage_on_enriched
    [of "Plain ''ctx: x'' (Enriched (Error ''x'' (Some 1) 404 None (Plain ''x'' Nil))) :: nat error"
        "Error ''x'' (Some 1) 404 None (Plain ''x'' Nil)"
        "go_fmt" "example_stack ''errors.WithMessage'' 59" "''handler''" "[]"]
  by (simp add: first_Enriched_def go_fmt_def length_example_stack example_stack_trace)

text \<open>
  C5. \<open>WithMessage\<close> on an error whose first Enriched Error has a non-empty stack trace
  returns an error with that same stack trace. Wrapping an error without an Enriched
  Error in its chain twice in succession gives, after the second wrap, the stack trace
  the first wrap captured, whatever the stack at the second wrap is. \<open>WithPayload\<close> and
  \<open>WithCode\<close> keep the stack trace; \<open>WithStacktrace\<close> replaces it by the frames
  captured at its call.
\<close>

theorem stacktrace_kept:
  "(first_Enriched e = Some (Enriched parent) \<and> stacktrace parent = Some st \<and> st \<noteq> [] \<longrightarrow>
      (\<exists>r. WithMessage F stack e format a = Inr r \<and> stacktrace r = Some st))
   \<and> (\<not> contains_Enriched e0 \<and> 3 \<le> length stack1 \<longrightarrow>
        (\<exists>st1 r1 r2. stackTrace stack1 = Inr st1
           \<and> WithMessage F stack1 e0 format1 a1 = Inr r1 \<and> stacktrace r1 = Some st1
           \<and> WithMessage F stack2 (Enriched r1) format2 a2 = Inr r2
           \<and> stacktrace r2 = Some st1))
   \<and> stacktrace (WithPayload ee p) = stacktrace ee
   \<and> stacktrace (WithCode ee c) = stacktrace ee
   \<and> (3 \<le> length stack3 \<longrightarrow>
        (\<exists>st3 r3. stackTrace stack3 = Inr st3 \<and> WithStacktrace stack3 ee = Inr r3
           \<and> stacktrace r3 = Some st3))"
proof -
  have a: "first_Enriched e = Some (Enriched parent) \<and> stacktrace parent = Some st \<and> st \<noteq> [] \<longrightarrow>
      (\<exists>r. WithMessage F stack e format a = Inr r \<and> stacktrace r = Some st)"
    by (auto simp: WithMessage_def errors_As_first_Enriched)
  have b: "\<not> contains_Enriched e0 \<and> 3 \<le> length stack1 \<longrightarrow>
        (\<exists>st1 r1 r2. stackTrace stack1 = Inr st1
           \<and> WithMessage F stack1 e0 format1 a1 = Inr r1 \<and> stacktrace r1 = Some st1
           \<and> WithMessage F stack2 (Enriched r1) format2 a2 = Inr r2
           \<and> stacktrace r2 = Some st1)"
    by (auto simp: WithMessage_def errors_As_first_Enriched contains_Enriched_def
        first_Enriched_Enriched stackTrace_captured)
  have c: "3 \<le> length stack3 \<longrightarrow>
        (\<exists>st3 r3. stackTrace stack3 = Inr st3 \<and> WithStacktrace stack3 ee = Inr r3
           \<and> stacktrace r3 = Some st3)"
    by (simp add: WithStacktrace_def stackTrace_captured)
  from a b c show ?thesis
    by (simp add: WithPayload_def WithCode_def)
qed



theorem stacktrace_kept_witness:
  "first_Enriched
     (Enriched (Error ''db connect failed'' None 0 (Some example_trace)
                  (Plain ''db connect failed'' Nil)) :: nat error)
     = Some (Enriched (Error ''db connect failed'' None 0 (Some example_trace)
                         (Plain ''db connect failed'' Nil)))
   \<and> example_trace \<noteq> []
   \<and> WithMessage go_fmt (example_stack_main ''errors.WithMessage'' 59)
        (Enriched (Error ''db connect failed'' None 0 (Some example_trace)
                     (Plain ''db connect failed'' Nil)) :: nat error) ''init service'' []
     = Inr (Error ''init service: db connect failed'' None 0 (Some example_trace)
              (Plain ''db connect failed'' Nil))
   \<and> \<not> contains_Enriched (Plain ''eof'' Nil :: nat error)
   \<and> 3 \<le> length (example_stack ''errors.WithMessage'' 66)
   \<and> WithMessage go_fmt (example_stack ''errors.WithMessage'' 66)
        (Plain ''eof'' Nil :: nat error) ''read config'' []
     = Inr (Error ''read config'' None 0 (Some example_trace) (Plain ''eof'' Nil))
   \<and> WithMessage go_fmt (example_stack_main ''errors.WithMessage'' 59)
        (Enriched (Error ''read config'' None 0 (Some example_trace) (Plain ''eof'' Nil))
           :: nat error) ''start'' []
     = Inr (Error ''start: read config'' None 0 (Some example_trace) (Plain ''eof'' Nil))
   \<and> 3 \<le> length (example_stack_main ''errors.WithStacktrace'' 82)
   \<and> WithStacktrace (example_stack_main ''errors.WithStacktrace'' 82)
        (Error ''read config'' None 0 (Some example_trace) (Plain ''eof'' Nil) :: nat Error)
     = Inr (Error ''read config'' None 0 (Some example_trace_main) (Plain ''eof'' Nil))"
  using stacktrace_kept
    [where e = "Enriched (Error ''db connect failed'' None 0 (Some example_trace)
                     (Plain ''db connect failed'' Nil)) :: nat error"
       and parent = "Error ''db connect failed'' None 0 (Some example_trace)
                     (Plain ''db connect failed'' Nil)"
       and st = example_trace and F = go_fmt
       and stack = "example_stack_main ''errors.WithMessage'' 59"
       and format = "''init service''" and a = "[]"
       and ?e0.0 = "Plain ''eof'' Nil"
       and ?stack1.0 = "example_stack ''errors.WithMessage'' 66"
       and ?format1.0 = "''read config''" and ?a1.0 = "[]"
       and ?stack2.0 = "example_stack_main ''errors.WithMessage'' 59"
       and ?format2.0 = "''start''" and ?a2.0 = "[]"
       and ee = "Error ''read config'' None 0 (Some example_trace) (Plain ''eof'' Nil)"
       and p = None and c = 0
       and ?stack3.0 = "example_stack_main ''errors.WithStacktrace'' 82"]
  by (simp add: first_Enriched_def contains_Enriched_def go_fmt_def WithMessage_def
      WithStacktrace_def example_stack_trace example_stack_main_trace
      length_example_stack length_example_stack_main example_trace_def)

section \<open>Construction: Errorf\<close>

text \<open>
  C6. \<open>Errorf\<close> is to return an Enriched Error whose \<open>Error()\<close> text is the formatted
  string and whose cause is a fresh plain error that carries the same formatted text. The
  code hands the same format and operands to \<^verbatim>\<open>fmt.Errorf\<close>, for the cause, and to
  \<^verbatim>\<open>fmt.Sprintf\<close>, for the message. For the format \<^verbatim>\<open>"wrap: %w"\<close> and an error made by
  \<^verbatim>\<open>errors.New("eof")\<close> the cause has the text \<open>wrap: eof\<close> (and wraps the operand),
  while the message, printed by \<^verbatim>\<open>fmt.Sprintf\<close>, which does not know \<^verbatim>\<open>%w\<close>, is the
  bad-verb report: the \<open>Error()\<close> text is not the formatted string and the cause does
  not carry the same text as the Enriched Error.
\<close>

theorem Errorf_percent_w_texts_differ:
  "Errorf go_fmt (example_stack ''errors.Errorf'' 50) ''wrap: %w'' [Error_operand ''eof'']
     = Inr (Error ''wrap: %!w(*errors.errorString=&{eof})'' None 0 (Some example_trace)
              (Plain ''wrap: eof'' (Plain ''eof'' Nil)) :: nat Error)
   \<and> Error_Error (Error ''wrap: %!w(*errors.errorString=&{eof})'' None 0 (Some example_trace)
              (Plain ''wrap: eof'' (Plain ''eof'' Nil)) :: nat Error)
       = ''wrap: %!w(*errors.errorString=&{eof})''
   \<and> call_Error (Plain ''wrap: eof'' (Plain ''eof'' Nil) :: nat error) = Inr ''wrap: eof''
   \<and> ''wrap: eof'' \<noteq> ''wrap: %!w(*errors.errorString=&{eof})''"
  by (simp add: Errorf_def go_fmt_def example_stack_trace Error_Error_def badVerb_def)

end
